theory Spec2Isabelle
  imports Main "HOL-Library.List_Lexorder" "HOL-Library.Multiset"
begin

text \<open>
  A model of \<^verbatim>\<open>src/main.py\<close>: the three methods of \<^verbatim>\<open>WeatherApp\<close> that compute something,
  \<^verbatim>\<open>get_weather_text\<close>, \<^verbatim>\<open>display_weather_info\<close> and the list building of \<^verbatim>\<open>load_area_list\<close>. The
  network calls and the widget styling are left out; what is kept of each appended widget is
  its kind and the values its text is built from. The inputs are the parsed JSON documents
  with the field types of the weather agency's format: in a forecast, names, timestamps, dates
  and codes are strings, and an element of \<^verbatim>\<open>temps\<close>, \<^verbatim>\<open>winds\<close> or \<^verbatim>\<open>waves\<close> is a string or
  \<^verbatim>\<open>null\<close>; in the area directory a name is a string or \<^verbatim>\<open>null\<close>. On such documents no statement
  of \<^verbatim>\<open>get_weather_text\<close> and \<^verbatim>\<open>display_weather_info\<close> can raise, so these return plain values; the
  sort in \<^verbatim>\<open>load_area_list\<close> raises on a \<^verbatim>\<open>null\<close> name, so its model returns an error or a list.
\<close>

section \<open>Python strings and dictionaries\<close>

text \<open>
  A Python \<^verbatim>\<open>str\<close> is a sequence of Unicode code points, and \<^verbatim>\<open>len\<close>, slicing, padding and
  comparison all count code points. A string is therefore modelled as the list of its code
  points; \<open>ascii\<close> writes an ASCII literal. With the lexicographic order on lists, \<open><\<close> on
  \<open>ustring\<close> is Python's order on \<^verbatim>\<open>str\<close>.
\<close>

type_synonym ustring = "nat list"

definition ascii :: "string \<Rightarrow> ustring" where
  "ascii s = map of_char s"

text \<open>\<^verbatim>\<open>s.split(c)\<close> for a separator \<open>c\<close> of one character: never empty, one more piece than
  there are separators.\<close>

fun str_split :: "nat \<Rightarrow> ustring \<Rightarrow> ustring list" where
  "str_split c [] = [ [] ]"
| "str_split c (x # xs) =
     (if x = c then [] # str_split c xs
      else (case str_split c xs of
              [] \<Rightarrow> [ [x] ]
            | p # ps \<Rightarrow> (x # p) # ps))"

text \<open>\<^verbatim>\<open>sep.join(parts)\<close>.\<close>

fun str_join :: "ustring \<Rightarrow> ustring list \<Rightarrow> ustring" where
  "str_join sep [] = []"
| "str_join sep [p] = p"
| "str_join sep (p # q # ps) = p @ sep @ str_join sep (q # ps)"

text \<open>\<^verbatim>\<open>format(s, ">w")\<close> on a string: right-aligned in a field of at least \<open>w\<close> characters,
  blanks added on the left, nothing cut off.\<close>

definition rjust :: "nat \<Rightarrow> ustring \<Rightarrow> ustring" where
  "rjust w s = replicate (w - length s) 32 @ s"

text \<open>A dictionary with a fixed set of expected keys is a record of options: \<open>None\<close> is an
  absent key, so \<^verbatim>\<open>"k" in d\<close> is \<open>k d \<noteq> None\<close>; \<open>dict_get\<close> is \<^verbatim>\<open>d.get("k", default)\<close>.\<close>

definition dict_get :: "'a option \<Rightarrow> 'a \<Rightarrow> 'a" where
  "dict_get v dflt = (case v of None \<Rightarrow> dflt | Some x \<Rightarrow> x)"

text \<open>Truth value of an array element that is a string or \<^verbatim>\<open>null\<close>: \<^verbatim>\<open>None\<close> and the empty
  string are false.\<close>

definition truthy :: "ustring option \<Rightarrow> bool" where
  "truthy v = (case v of None \<Rightarrow> False | Some s \<Rightarrow> s \<noteq> [])"

section \<open>The forecast document\<close>

text \<open>
  The parsed forecast JSON (\<^verbatim>\<open>weather_data: List[Dict]\<close>) with the keys that
  \<^verbatim>\<open>display_weather_info\<close> reads. Every key is optional. The \<^verbatim>\<open>"area"\<close> key occurs in an
  area forecast and in an entry of \<^verbatim>\<open>"areas"\<close>; both records extend \<open>has_area\<close>.
  Elements of \<^verbatim>\<open>temps\<close>, \<^verbatim>\<open>winds\<close> and \<^verbatim>\<open>waves\<close> are strings or \<^verbatim>\<open>null\<close>.
\<close>

record named =
  name :: "ustring option"

record has_area =
  area :: "named option"

record area_info = has_area +
  weatherCodes :: "ustring list option"
  temps :: "ustring option list option"
  winds :: "ustring option list option"
  waves :: "ustring option list option"

record time_series =
  timeDefines :: "ustring list option"
  areas :: "area_info list option"

record area_forecast = has_area +
  reportDatetime :: "ustring option"
  timeSeries :: "time_series list option"

text \<open>
  The controls appended to \<^verbatim>\<open>self.weather_info.controls\<close>, one constructor for each
  \<^verbatim>\<open>append\<close> of the source, carrying the values its text interpolates:
  \<^item> \<open>NoData\<close>: \<^verbatim>\<open>[ERROR] NO DATA AVAILABLE\<close>;
  \<^item> \<open>AreaHeader area_name\<close>: \<^verbatim>\<open>>> {area_name} <<\<close>;
  \<^item> \<open>Timestamp report_time\<close>: \<^verbatim>\<open>[TIME] {report_time}\<close>;
  \<^item> \<open>ForecastLine area_name\<close>: \<^verbatim>\<open>[FORECAST] {area_name}\<close>;
  \<^item> \<open>DayLine n date_short weather_text weather_code\<close>:
    \<^verbatim>\<open>[{day_label:6s}] {date_short} | {weather_text:20s} [CODE:{weather_code}]\<close> with the label
    \<^verbatim>\<open>DAY n\<close>;
  \<^item> \<open>TempLine temp_text\<close>, \<open>WindLine wind_text\<close>, \<open>WaveLine wave_text\<close>:
    \<^verbatim>\<open>[TEMP] {temp_text}\<close>, \<^verbatim>\<open>[WIND] {wind_text}\<close>, \<^verbatim>\<open>[WAVE] {wave_text}\<close>;
  \<^item> \<open>Separator\<close>: fifty dashes;
  \<^item> \<open>Empty\<close>: \<^verbatim>\<open>[WARNING] NO DISPLAYABLE DATA\<close>.
\<close>

datatype control =
    NoData
  | AreaHeader ustring
  | Timestamp ustring
  | ForecastLine ustring
  | DayLine nat ustring ustring ustring
  | TempLine ustring
  | WindLine ustring
  | WaveLine ustring
  | Separator
  | Empty

section \<open>\<^verbatim>\<open>get_weather_text\<close>\<close>

text \<open>The dictionary literal of \<^verbatim>\<open>get_weather_text\<close>, in source order: 109 codes, each with its
  Japanese phrase as code points.\<close>

definition weather_map :: "(ustring \<times> ustring) list" where
  "weather_map = [
     (ascii ''100'', [26228, 12428]),
     (ascii ''101'', [26228, 12428, 26178, 12293, 26311, 12426]),
     (ascii ''102'', [26228, 12428, 19968, 26178, 38632]),
     (ascii ''103'', [26228, 12428, 26178, 12293, 38632]),
     (ascii ''104'', [26228, 12428, 19968, 26178, 38634]),
     (ascii ''105'', [26228, 12428, 26178, 12293, 38634]),
     (ascii ''106'', [26228, 12428, 19968, 26178, 38632, 12363, 38634]),
     (ascii ''107'', [26228, 12428, 26178, 12293, 38632, 12363, 38634]),
     (ascii ''108'', [26228, 12428, 19968, 26178, 38632, 12363, 38647, 38632]),
     (ascii ''110'', [26228, 12428, 24460, 26178, 12293, 26311, 12426]),
     (ascii ''111'', [26228, 12428, 24460, 26311, 12426]),
     (ascii ''112'', [26228, 12428, 24460, 19968, 26178, 38632]),
     (ascii ''113'', [26228, 12428, 24460, 26178, 12293, 38632]),
     (ascii ''114'', [26228, 12428, 24460, 38632]),
     (ascii ''115'', [26228, 12428, 24460, 19968, 26178, 38634]),
     (ascii ''116'', [26228, 12428, 24460, 26178, 12293, 38634]),
     (ascii ''117'', [26228, 12428, 24460, 38634]),
     (ascii ''118'', [26228, 12428, 24460, 38632, 12363, 38634]),
     (ascii ''119'', [26228, 12428, 24460, 38632, 12363, 38647, 38632]),
     (ascii ''120'', [26228, 12428, 26397, 22805, 19968, 26178, 38632]),
     (ascii ''121'', [26228, 12428, 26397, 12398, 20869, 19968, 26178, 38632]),
     (ascii ''122'', [26228, 12428, 22805, 26041, 19968, 26178, 38632]),
     (ascii ''123'', [26228, 12428, 23665, 27839, 12356, 38647, 38632]),
     (ascii ''124'', [26228, 12428, 23665, 27839, 12356, 38634]),
     (ascii ''125'', [26228, 12428, 21320, 24460, 12399, 38647, 38632]),
     (ascii ''126'', [26228, 12428, 21320, 24460, 12399, 38634]),
     (ascii ''130'', [26397, 12398, 20869, 38695, 24460, 26228, 12428]),
     (ascii ''131'', [26228, 12428, 26126, 12369, 26041, 38695]),
     (ascii ''132'', [26228, 12428, 26397, 22805, 26311, 12426]),
     (ascii ''140'', [26228, 12428, 26178, 12293, 38632, 12391, 38647, 12434, 20276, 12358]),
     (ascii ''200'', [26311, 12426]),
     (ascii ''201'', [26311, 12426, 26178, 12293, 26228, 12428]),
     (ascii ''202'', [26311, 12426, 19968, 26178, 38632]),
     (ascii ''203'', [26311, 12426, 26178, 12293, 38632]),
     (ascii ''204'', [26311, 12426, 19968, 26178, 38634]),
     (ascii ''205'', [26311, 12426, 26178, 12293, 38634]),
     (ascii ''206'', [26311, 12426, 19968, 26178, 38632, 12363, 38634]),
     (ascii ''207'', [26311, 12426, 26178, 12293, 38632, 12363, 38634]),
     (ascii ''208'', [26311, 12426, 19968, 26178, 38632, 12363, 38647, 38632]),
     (ascii ''209'', [38695]),
     (ascii ''210'', [26311, 12426, 24460, 26178, 12293, 26228, 12428]),
     (ascii ''211'', [26311, 12426, 24460, 26228, 12428]),
     (ascii ''212'', [26311, 12426, 24460, 19968, 26178, 38632]),
     (ascii ''213'', [26311, 12426, 24460, 26178, 12293, 38632]),
     (ascii ''214'', [26311, 12426, 24460, 38632]),
     (ascii ''215'', [26311, 12426, 24460, 19968, 26178, 38634]),
     (ascii ''216'', [26311, 12426, 24460, 26178, 12293, 38634]),
     (ascii ''217'', [26311, 12426, 24460, 38634]),
     (ascii ''218'', [26311, 12426, 24460, 38632, 12363, 38634]),
     (ascii ''219'', [26311, 12426, 24460, 38632, 12363, 38647, 38632]),
     (ascii ''220'', [26311, 12426, 26397, 22805, 19968, 26178, 38632]),
     (ascii ''221'', [26311, 12426, 26397, 12398, 20869, 19968, 26178, 38632]),
     (ascii ''222'', [26311, 12426, 22805, 26041, 19968, 26178, 38632]),
     (ascii ''223'', [26311, 12426, 26085, 20013, 26178, 12293, 26228, 12428]),
     (ascii ''224'', [26311, 12426, 26172, 38915, 12363, 12425, 38632]),
     (ascii ''225'', [26311, 12426, 22805, 26041, 12363, 12425, 38632]),
     (ascii ''226'', [26311, 12426, 22812, 12399, 38632]),
     (ascii ''227'', [26311, 12426, 22812, 21322, 12363, 12425, 38632]),
     (ascii ''228'', [26311, 12426, 26172, 38915, 12363, 12425, 38634]),
     (ascii ''229'', [26311, 12426, 22805, 26041, 12363, 12425, 38634]),
     (ascii ''230'', [26311, 12426, 22812, 12399, 38634]),
     (ascii ''231'', [26311, 12426, 28023, 19978, 28023, 23736, 12399, 38695, 12363, 38695, 38632]),
     (ascii ''300'', [38632]),
     (ascii ''301'', [38632, 26178, 12293, 26228, 12428]),
     (ascii ''302'', [38632, 26178, 12293, 27490, 12416]),
     (ascii ''303'', [38632, 26178, 12293, 38634]),
     (ascii ''304'', [38632, 12363, 38634]),
     (ascii ''306'', [22823, 38632]),
     (ascii ''308'', [38632, 12391, 26292, 39080, 12434, 20276, 12358]),
     (ascii ''309'', [38632, 19968, 26178, 38634]),
     (ascii ''311'', [38632, 24460, 26228, 12428]),
     (ascii ''313'', [38632, 24460, 26311, 12426]),
     (ascii ''314'', [38632, 24460, 26178, 12293, 38634]),
     (ascii ''315'', [38632, 24460, 38634]),
     (ascii ''316'', [38632, 12363, 38634, 24460, 26228, 12428]),
     (ascii ''317'', [38632, 12363, 38634, 24460, 26311, 12426]),
     (ascii ''320'', [26397, 12398, 20869, 38632, 24460, 26228, 12428]),
     (ascii ''321'', [26397, 12398, 20869, 38632, 24460, 26311, 12426]),
     (ascii ''322'', [38632, 26397, 26217, 19968, 26178, 38634]),
     (ascii ''323'', [38632, 26172, 38915, 12363, 12425, 26228, 12428]),
     (ascii ''324'', [38632, 22805, 26041, 12363, 12425, 26228, 12428]),
     (ascii ''325'', [38632, 22812, 12399, 26228, 12428]),
     (ascii ''326'', [38632, 22805, 26041, 12363, 12425, 38634]),
     (ascii ''327'', [38632, 22812, 12399, 38634]),
     (ascii ''328'', [38632, 19968, 26178, 24375, 12367, 38477, 12427]),
     (ascii ''329'', [38632, 19968, 26178, 12415, 12382, 12428]),
     (ascii ''340'', [38634, 12363, 38632]),
     (ascii ''350'', [38632, 12391, 38647, 12434, 20276, 12358]),
     (ascii ''361'', [38634, 12363, 38632, 24460, 26228, 12428]),
     (ascii ''371'', [38634, 12363, 38632, 24460, 26311, 12426]),
     (ascii ''400'', [38634]),
     (ascii ''401'', [38634, 26178, 12293, 26228, 12428]),
     (ascii ''402'', [38634, 26178, 12293, 27490, 12416]),
     (ascii ''403'', [38634, 26178, 12293, 38632]),
     (ascii ''405'', [22823, 38634]),
     (ascii ''406'', [39080, 38634, 24375, 12356]),
     (ascii ''407'', [26292, 39080, 38634]),
     (ascii ''409'', [38634, 19968, 26178, 38632]),
     (ascii ''411'', [38634, 24460, 26228, 12428]),
     (ascii ''413'', [38634, 24460, 26311, 12426]),
     (ascii ''414'', [38634, 24460, 38632]),
     (ascii ''420'', [26397, 12398, 20869, 38634, 24460, 26228, 12428]),
     (ascii ''421'', [26397, 12398, 20869, 38634, 24460, 26311, 12426]),
     (ascii ''422'', [38634, 26172, 38915, 12363, 12425, 38632]),
     (ascii ''423'', [38634, 22805, 26041, 12363, 12425, 38632]),
     (ascii ''425'', [38634, 19968, 26178, 24375, 12367, 38477, 12427]),
     (ascii ''426'', [38634, 24460, 12415, 12382, 12428]),
     (ascii ''427'', [38634, 19968, 26178, 12415, 12382, 12428]),
     (ascii ''450'', [38634, 12391, 38647, 12434, 20276, 12358])   ]"

text \<open>\<^verbatim>\<open>weather_map.get(weather_code, f"..({weather_code})")\<close>: the fallback is the two
  characters U+4E0D U+660E ("unknown"), then the code in ASCII parentheses.\<close>

definition get_weather_text :: "ustring \<Rightarrow> ustring" where
  "get_weather_text weather_code =
     dict_get (map_of weather_map weather_code)
       ([19981, 26126] @ ascii ''('' @ weather_code @ ascii '')'')"

section \<open>\<^verbatim>\<open>display_weather_info\<close>\<close>

text \<open>Lines 301 to 306: the short date of one \<^verbatim>\<open>timeDefines\<close> entry.\<close>

definition date_short :: "ustring \<Rightarrow> ustring" where
  "date_short time_def =
     (if of_char CHR ''T'' \<in> set time_def then
        (let date_part = hd (str_split (of_char CHR ''T'') time_def)
         in if of_char CHR ''-'' \<in> set date_part
            then str_join (ascii ''/'') (take 2 (drop 1 (str_split (of_char CHR ''-'') date_part)))
            else date_part)
      else (if length time_def \<ge> 10 then take 10 time_def else time_def))"

text \<open>Lines 298 to 320: the loop over \<^verbatim>\<open>enumerate(zip(time_defines, weather_codes))\<close>;
  \<open>i\<close> is the running index.\<close>

fun day_loop :: "nat \<Rightarrow> (ustring \<times> ustring) list \<Rightarrow> control list \<Rightarrow> control list" where
  "day_loop i [] controls = controls"
| "day_loop i ((time_def, weather_code) # rest) controls =
     day_loop (i + 1) rest
       (controls @ [DayLine (i + 1) (date_short time_def) (get_weather_text weather_code) weather_code])"

text \<open>Lines 280 to 320: the name, the forecast header and the day lines of one entry of
  \<^verbatim>\<open>areas\<close>.\<close>

definition forecast_lines :: "ustring list \<Rightarrow> area_info \<Rightarrow> control list \<Rightarrow> control list" where
  "forecast_lines time_defines area_info controls =
     (let area_name = dict_get (name (dict_get (area area_info) \<lparr>name = None\<rparr>)) []
      in case weatherCodes area_info of
           None \<Rightarrow> controls
         | Some weather_codes \<Rightarrow>
             day_loop 0 (zip time_defines weather_codes) (controls @ [ForecastLine area_name]))"

text \<open>Line 326: one element of \<^verbatim>\<open>temp_values\<close>; 176 is the degree sign.\<close>

definition temp_value :: "ustring option \<Rightarrow> ustring" where
  "temp_value temp = (if truthy temp then rjust 3 (the temp) @ [176, of_char CHR ''C''] else ascii ''  -'')"

text \<open>Lines 344 and 361: one element of the wind and wave lists.\<close>

definition or_dash :: "ustring option \<Rightarrow> ustring" where
  "or_dash v = (if truthy v then the v else ascii ''  -'')"

text \<open>Lines 323 to 338.\<close>

definition temp_line :: "area_info \<Rightarrow> control list \<Rightarrow> control list" where
  "temp_line area_info controls =
     (case temps area_info of
        None \<Rightarrow> controls
      | Some ts \<Rightarrow>
          if ts \<noteq> [] then controls @ [TempLine (str_join (ascii '' | '') (map temp_value ts))]
          else controls)"

text \<open>Lines 341 to 355.\<close>

definition wind_line :: "area_info \<Rightarrow> control list \<Rightarrow> control list" where
  "wind_line area_info controls =
     (case winds area_info of
        None \<Rightarrow> controls
      | Some ws \<Rightarrow>
          if ws \<noteq> [] then controls @ [WindLine (str_join (ascii '' | '') (map or_dash ws))]
          else controls)"

text \<open>Lines 358 to 372.\<close>

definition wave_line :: "area_info \<Rightarrow> control list \<Rightarrow> control list" where
  "wave_line area_info controls =
     (case waves area_info of
        None \<Rightarrow> controls
      | Some ws \<Rightarrow>
          if ws \<noteq> [] then controls @ [WaveLine (str_join (ascii '' | '') (map or_dash ws))]
          else controls)"

text \<open>Lines 279 to 372: the body of the loop over \<^verbatim>\<open>time_series["areas"]\<close>.\<close>

definition area_info_step :: "ustring list \<Rightarrow> area_info \<Rightarrow> control list \<Rightarrow> control list" where
  "area_info_step time_defines area_info controls =
     wave_line area_info (wind_line area_info (temp_line area_info
       (forecast_lines time_defines area_info controls)))"

text \<open>Lines 272 to 372: the body of the loop over \<^verbatim>\<open>area_forecast["timeSeries"]\<close>.\<close>

definition time_series_step :: "time_series \<Rightarrow> control list \<Rightarrow> control list" where
  "time_series_step ts controls =
     (case timeDefines ts of
        None \<Rightarrow> controls
      | Some time_defines \<Rightarrow>
          (case areas ts of
             None \<Rightarrow> controls
           | Some area_infos \<Rightarrow> fold (area_info_step time_defines) area_infos controls))"

text \<open>Lines 240 to 253; the default name is U+4E0D U+660E ("unknown").\<close>

definition area_header :: "area_forecast \<Rightarrow> control list \<Rightarrow> control list" where
  "area_header area_forecast controls =
     (if area area_forecast \<noteq> None
      then controls @ [AreaHeader (dict_get (name (dict_get (area area_forecast) \<lparr>name = None\<rparr>)) [19981, 26126])]
      else controls)"

text \<open>Lines 256 to 268.\<close>

definition report_time :: "area_forecast \<Rightarrow> control list \<Rightarrow> control list" where
  "report_time area_forecast controls =
     (case reportDatetime area_forecast of
        None \<Rightarrow> controls
      | Some t \<Rightarrow> controls @ [Timestamp t])"

text \<open>Lines 271 to 372.\<close>

definition time_series_lines :: "area_forecast \<Rightarrow> control list \<Rightarrow> control list" where
  "time_series_lines area_forecast controls =
     (case timeSeries area_forecast of
        None \<Rightarrow> controls
      | Some tss \<Rightarrow> fold time_series_step tss controls)"

text \<open>Lines 238 to 385: the body of the loop over \<^verbatim>\<open>weather_data\<close>, ending with the separator.\<close>

definition area_forecast_step :: "area_forecast \<Rightarrow> control list \<Rightarrow> control list" where
  "area_forecast_step area_forecast controls =
     time_series_lines area_forecast (report_time area_forecast (area_header area_forecast controls))
       @ [Separator]"

text \<open>Lines 223 to 395. The result is \<^verbatim>\<open>self.weather_info.controls\<close> on return; the list is
  cleared on entry, so it does not depend on what was shown before.\<close>

definition display_weather_info :: "area_forecast list \<Rightarrow> control list" where
  "display_weather_info weather_data =
     (if weather_data = [] then [NoData]
      else (let controls = fold area_forecast_step weather_data []
            in if controls = [] then controls @ [Empty] else controls))"

section \<open>\<^verbatim>\<open>load_area_list\<close>\<close>

text \<open>
  The parsed area directory: \<^verbatim>\<open>"centers"\<close> and \<^verbatim>\<open>"offices"\<close> are optional dictionaries from a
  code to an object with an optional \<^verbatim>\<open>"name"\<close>, kept as the list of their items in
  dictionary order. The value under \<^verbatim>\<open>"name"\<close> is a string or \<^verbatim>\<open>null\<close>. The field for the key
  \<^verbatim>\<open>"name"\<close> is called \<open>info_name\<close> here, \<open>name\<close> being the field of the forecast's area object.
\<close>

datatype py_error = TypeError

datatype name_value = Null | Str ustring

record directory_info =
  info_name :: "name_value option"

record area_data =
  centers :: "(ustring \<times> directory_info) list option"
  offices :: "(ustring \<times> directory_info) list option"

datatype area_type = center | office

record area_entry =
  code :: ustring
  entry_name :: name_value
  entry_type :: area_type

text \<open>Lines 153 to 159 and 163 to 169: the loop over the items of one dictionary.\<close>

fun add_areas ::
  "area_type \<Rightarrow> (ustring \<times> directory_info) list \<Rightarrow> area_entry list \<Rightarrow> area_entry list" where
  "add_areas t [] area_list = area_list"
| "add_areas t ((c, info) # rest) area_list =
     add_areas t rest
       (case info_name info of
          None \<Rightarrow> area_list
        | Some n \<Rightarrow> area_list @ [\<lparr>code = c, entry_name = n, entry_type = t\<rparr>])"

text \<open>Lines 151 to 169: \<^verbatim>\<open>self.area_list\<close>.\<close>

definition area_list :: "area_data \<Rightarrow> area_entry list" where
  "area_list d =
     (let l0 = [];
          l1 = (case centers d of None \<Rightarrow> l0 | Some cs \<Rightarrow> add_areas center cs l0);
          l2 = (case offices d of None \<Rightarrow> l1 | Some os \<Rightarrow> add_areas office os l1)
      in l2)"

text \<open>The sort key \<^verbatim>\<open>x["name"]\<close> when it is a string.\<close>

fun name_key :: "name_value \<Rightarrow> ustring" where
  "name_key (Str s) = s"
| "name_key Null = []"

text \<open>
  Line 177: \<^verbatim>\<open>sorted(self.area_list, key=lambda x: x["name"])\<close>, a stable ascending sort. A list of
  fewer than two elements is returned without a comparison. In a longer list the sort compares
  every key with another one, and \<^verbatim>\<open><\<close> between \<^verbatim>\<open>None\<close> and a string, or between \<^verbatim>\<open>None\<close> and
  \<^verbatim>\<open>None\<close>, raises \<^verbatim>\<open>TypeError\<close>, which \<^verbatim>\<open>load_area_list\<close> does not catch (line 183 catches
  request errors only).
\<close>

definition sorted_area_list :: "area_data \<Rightarrow> py_error + area_entry list" where
  "sorted_area_list d =
     (let l = area_list d
      in if 2 \<le> length l \<and> list_ex (\<lambda>a. entry_name a = Null) l then Inl TypeError
         else Inr (sort_key (\<lambda>a. name_key (entry_name a)) l))"

text \<open>Lines 172 to 178: the key and the text of each dropdown option; the text of \<^verbatim>\<open>None\<close> in
  an f-string is \<^verbatim>\<open>None\<close>.\<close>

fun name_text :: "name_value \<Rightarrow> ustring" where
  "name_text (Str s) = s"
| "name_text Null = ascii ''None''"

definition dropdown_options :: "area_data \<Rightarrow> py_error + (ustring \<times> ustring) list" where
  "dropdown_options d =
     (case sorted_area_list d of
        Inl e \<Rightarrow> Inl e
      | Inr l \<Rightarrow>
          Inr (map (\<lambda>a. (code a, name_text (entry_name a) @ ascii '' ('' @ code a @ ascii '')'')) l))"

section \<open>Notions used in the statements\<close>

text \<open>The name under \<^verbatim>\<open>area.name\<close> of an area forecast or of an entry of \<^verbatim>\<open>areas\<close>, when both keys
  are present.\<close>

definition area_name_of :: "'a has_area_scheme \<Rightarrow> ustring option" where
  "area_name_of x = (case area x of None \<Rightarrow> None | Some a \<Rightarrow> name a)"

text \<open>
  The position of one entry \<open>ai\<close> of \<^verbatim>\<open>areas\<close> in a document: the document is \<open>d1 @ af # d2\<close>, the
  time series of \<open>af\<close> are \<open>t1 @ ts # t2\<close> and the entries of \<open>ts\<close> are \<open>a1 @ ai # a2\<close>.
  \<open>controls_before\<close> is the list of controls when the loops reach \<open>ai\<close>; \<open>controls_after\<close> is
  what the rest of the run appends once \<open>ai\<close> is done.
\<close>

definition controls_before ::
  "area_forecast list \<Rightarrow> area_forecast \<Rightarrow> time_series list \<Rightarrow> ustring list \<Rightarrow> area_info list
     \<Rightarrow> control list" where
  "controls_before d1 af t1 tds a1 =
     fold (area_info_step tds) a1
       (fold time_series_step t1 (report_time af (area_header af (fold area_forecast_step d1 []))))"

definition controls_after ::
  "ustring list \<Rightarrow> area_info list \<Rightarrow> time_series list \<Rightarrow> area_forecast list \<Rightarrow> control list" where
  "controls_after tds a2 t2 d2 =
     fold area_forecast_step d2
       (fold time_series_step t2 (fold (area_info_step tds) a2 []) @ [Separator])"

fun is_day :: "control \<Rightarrow> bool" where
  "is_day (DayLine n d t c) = True"
| "is_day _ = False"

fun is_forecast :: "control \<Rightarrow> bool" where
  "is_forecast (ForecastLine n) = True"
| "is_forecast _ = False"

fun is_temp :: "control \<Rightarrow> bool" where
  "is_temp (TempLine t) = True"
| "is_temp _ = False"

fun is_area_header :: "control \<Rightarrow> bool" where
  "is_area_header (AreaHeader n) = True"
| "is_area_header _ = False"

text \<open>The lines that come from an entry of \<^verbatim>\<open>areas\<close>.\<close>

fun is_series_line :: "control \<Rightarrow> bool" where
  "is_series_line (ForecastLine n) = True"
| "is_series_line (DayLine n d t c) = True"
| "is_series_line (TempLine t) = True"
| "is_series_line (WindLine t) = True"
| "is_series_line (WaveLine t) = True"
| "is_series_line _ = False"

definition starts_with_day :: "control list \<Rightarrow> bool" where
  "starts_with_day cs = (case cs of [] \<Rightarrow> False | c # _ \<Rightarrow> is_day c)"

text \<open>A time-series block that has both keys the loop asks for, and an area forecast with
  the other blocks taken out.\<close>

definition complete_block :: "time_series \<Rightarrow> bool" where
  "complete_block ts = (timeDefines ts \<noteq> None \<and> areas ts \<noteq> None)"

definition without_incomplete_blocks :: "area_forecast \<Rightarrow> area_forecast" where
  "without_incomplete_blocks af = af\<lparr>timeSeries := map_option (filter complete_block) (timeSeries af)\<rparr>"

text \<open>A string of the shape \<^verbatim>\<open>YYYY-MM-DD\<close>: ten characters, dashes at positions 4 and 7, digits
  elsewhere.\<close>

definition is_digit :: "nat \<Rightarrow> bool" where
  "is_digit c = (48 \<le> c \<and> c \<le> 57)"

definition ymd_shaped :: "ustring \<Rightarrow> bool" where
  "ymd_shaped s =
     (length s = 10 \<and> s ! 4 = of_char CHR ''-'' \<and> s ! 7 = of_char CHR ''-''
      \<and> list_all (\<lambda>i. is_digit (s ! i)) [0, 1, 2, 3, 5, 6, 8, 9])"

text \<open>The short date as the specification words it: the part before the time separator,
  turned into \<^verbatim>\<open>MM/DD\<close> when it is \<^verbatim>\<open>YYYY-MM-DD\<close>-shaped, and the first ten characters of the
  raw string for every other input.\<close>

definition spec_date_short :: "ustring \<Rightarrow> ustring" where
  "spec_date_short time_def =
     (let date_part = takeWhile (\<lambda>c. c \<noteq> of_char CHR ''T'') time_def
      in if ymd_shaped date_part
         then take 2 (drop 5 date_part) @ ascii ''/'' @ take 2 (drop 8 date_part)
         else take 10 time_def)"

text \<open>A temperature padded on the right to three characters, as the specification words
  it.\<close>

definition spec_temp_value :: "ustring \<Rightarrow> ustring" where
  "spec_temp_value temp = temp @ replicate (3 - length temp) 32 @ [176, of_char CHR ''C'']"



subsection \<open>Sample inputs\<close>

definition sample_time :: "ustring" where
  "sample_time = ascii ''2024-01-01T00:00:00+09:00''"

definition sample_entry :: area_info where
  "sample_entry =
     \<lparr>area = Some \<lparr>name = Some (ascii ''Tokyo'')\<rparr>,
      weatherCodes = Some [ascii ''100'', ascii ''999''],
      temps = Some [Some (ascii ''5''), None, Some (ascii ''-10.5''), Some []],
      winds = None,
      waves = None\<rparr>"

definition unnamed_entry :: area_info where
  "unnamed_entry =
     \<lparr>area = None, weatherCodes = Some [ascii ''200''], temps = None, winds = None, waves = None\<rparr>"

definition sample_block :: time_series where
  "sample_block =
     \<lparr>timeDefines = Some [sample_time, ascii ''2024-01-02'', ascii ''20240103T000000''],
      areas = Some [sample_entry]\<rparr>"

definition headless_block :: time_series where
  "headless_block = \<lparr>timeDefines = None, areas = Some [sample_entry]\<rparr>"

definition sample_forecast :: area_forecast where
  "sample_forecast =
     \<lparr>area = Some \<lparr>name = Some (ascii ''Tokyo'')\<rparr>,
      reportDatetime = Some sample_time,
      timeSeries = Some [sample_block]\<rparr>"

definition bare_forecast :: area_forecast where
  "bare_forecast = \<lparr>area = None, reportDatetime = None, timeSeries = None\<rparr>"

definition nameless_forecast :: area_forecast where
  "nameless_forecast = \<lparr>area = Some \<lparr>name = None\<rparr>, reportDatetime = None, timeSeries = None\<rparr>"

definition headless_forecast :: area_forecast where
  "headless_forecast = \<lparr>area = None, reportDatetime = None, timeSeries = Some [headless_block]\<rparr>"

definition unnamed_forecast :: area_forecast where
  "unnamed_forecast =
     \<lparr>area = None, reportDatetime = None,
      timeSeries = Some [\<lparr>timeDefines = Some [sample_time], areas = Some [unnamed_entry]\<rparr>]\<rparr>"

definition headless_unnamed_forecast :: area_forecast where
  "headless_unnamed_forecast =
     \<lparr>area = None, reportDatetime = None,
      timeSeries = Some [\<lparr>timeDefines = None, areas = Some [unnamed_entry]\<rparr>]\<rparr>"




section \<open>Every step appends\<close>

lemma str_split_not_Nil: "str_split c s \<noteq> []"
  by (induction s) (auto split: list.splits)

lemma hd_str_split: "c \<notin> set p \<Longrightarrow> hd (str_split c (p @ c # rest)) = p"
  by (induction p) (auto split: list.splits simp: str_split_not_Nil)

lemma day_loop_append:
  "day_loop i zs controls =
     controls @ map (\<lambda>k. DayLine (i + k + 1) (date_short (fst (zs ! k)))
                        (get_weather_text (snd (zs ! k))) (snd (zs ! k))) [0..<length zs]"
proof (induction zs arbitrary: i controls)
  case Nil
  then show ?case by simp
next
  case (Cons z zs)
  obtain td wc where z: "z = (td, wc)" by (cases z)
  show ?case
    unfolding z
    by (simp add: Cons.IH map_upt_Suc del: upt_Suc)
qed

lemma day_loop_zip:
  "day_loop 0 (zip tds wcs) controls =
     controls @ map (\<lambda>k. DayLine (k + 1) (date_short (tds ! k))
                        (get_weather_text (wcs ! k)) (wcs ! k)) [0..<min (length tds) (length wcs)]"
  by (simp add: day_loop_append)

lemma fold_append:
  assumes "\<And>x cs. f x cs = cs @ f x []"
  shows "fold f xs cs = cs @ concat (map (\<lambda>x. f x []) xs)"
proof (induction xs arbitrary: cs)
  case Nil
  then show ?case by simp
next
  case (Cons x xs)
  have "fold f (x # xs) cs = fold f xs (f x cs)" by simp
  also have "\<dots> = f x cs @ concat (map (\<lambda>x. f x []) xs)" by (rule Cons.IH)
  also have "f x cs = cs @ f x []" by (rule assms)
  finally show ?case by simp
qed

lemma forecast_lines_append: "forecast_lines tds ai cs = cs @ forecast_lines tds ai []"
  by (simp add: forecast_lines_def day_loop_zip split: option.splits)

lemma temp_line_append: "temp_line ai cs = cs @ temp_line ai []"
  by (simp add: temp_line_def split: option.splits)

lemma wind_line_append: "wind_line ai cs = cs @ wind_line ai []"
  by (simp add: wind_line_def split: option.splits)

lemma wave_line_append: "wave_line ai cs = cs @ wave_line ai []"
  by (simp add: wave_line_def split: option.splits)

lemma area_info_step_parts:
  "area_info_step tds ai cs =
     cs @ forecast_lines tds ai [] @ temp_line ai [] @ wind_line ai [] @ wave_line ai []"
proof -
  have "area_info_step tds ai cs =
          wave_line ai (wind_line ai (temp_line ai (forecast_lines tds ai cs)))"
    by (simp add: area_info_step_def)
  also have "\<dots> = wind_line ai (temp_line ai (forecast_lines tds ai cs)) @ wave_line ai []"
    by (rule wave_line_append)
  also have "wind_line ai (temp_line ai (forecast_lines tds ai cs))
               = temp_line ai (forecast_lines tds ai cs) @ wind_line ai []"
    by (rule wind_line_append)
  also have "temp_line ai (forecast_lines tds ai cs) = forecast_lines tds ai cs @ temp_line ai []"
    by (rule temp_line_append)
  also have "forecast_lines tds ai cs = cs @ forecast_lines tds ai []"
    by (rule forecast_lines_append)
  finally show ?thesis by simp
qed

lemma area_info_step_append: "area_info_step tds ai cs = cs @ area_info_step tds ai []"
  using area_info_step_parts [of tds ai cs] area_info_step_parts [of tds ai "[]"] by simp

lemma fold_area_info_step:
  "fold (area_info_step tds) ais cs = cs @ concat (map (\<lambda>ai. area_info_step tds ai []) ais)"
  by (rule fold_append) (rule area_info_step_append)

lemma time_series_step_append: "time_series_step ts cs = cs @ time_series_step ts []"
  using fold_area_info_step [of _ _ cs] fold_area_info_step [of _ _ "[]"]
  by (simp add: time_series_step_def split: option.splits)

lemma fold_time_series_step:
  "fold time_series_step tss cs = cs @ concat (map (\<lambda>ts. time_series_step ts []) tss)"
  by (rule fold_append) (rule time_series_step_append)

lemma area_header_append: "area_header af cs = cs @ area_header af []"
  by (simp add: area_header_def)

lemma report_time_append: "report_time af cs = cs @ report_time af []"
  by (simp add: report_time_def split: option.splits)

lemma time_series_lines_append: "time_series_lines af cs = cs @ time_series_lines af []"
  using fold_time_series_step [of _ cs] fold_time_series_step [of _ "[]"]
  by (simp add: time_series_lines_def split: option.splits)

lemma area_forecast_step_parts:
  "area_forecast_step af cs =
     cs @ area_header af [] @ report_time af [] @ time_series_lines af [] @ [Separator]"
proof -
  have "time_series_lines af (report_time af (area_header af cs))
          = report_time af (area_header af cs) @ time_series_lines af []"
    by (rule time_series_lines_append)
  moreover have "report_time af (area_header af cs) = area_header af cs @ report_time af []"
    by (rule report_time_append)
  moreover have "area_header af cs = cs @ area_header af []"
    by (rule area_header_append)
  ultimately show ?thesis by (simp add: area_forecast_step_def)
qed

lemma area_forecast_step_append: "area_forecast_step af cs = cs @ area_forecast_step af []"
  using area_forecast_step_parts [of af cs] area_forecast_step_parts [of af "[]"] by simp

lemma fold_area_forecast_step:
  "fold area_forecast_step afs cs = cs @ concat (map (\<lambda>af. area_forecast_step af []) afs)"
  by (rule fold_append) (rule area_forecast_step_append)

lemma area_forecast_step_not_Nil: "area_forecast_step af cs \<noteq> []"
  by (simp add: area_forecast_step_def)

lemma fold_area_forecast_step_not_Nil:
  "weather_data \<noteq> [] \<Longrightarrow> fold area_forecast_step weather_data [] \<noteq> []"
  by (cases weather_data rule: rev_cases) (simp_all add: area_forecast_step_not_Nil)

lemma display_weather_info_concat:
  "display_weather_info weather_data =
     (if weather_data = [] then [NoData]
      else concat (map (\<lambda>af. area_forecast_step af []) weather_data))"
proof (cases "weather_data = []")
  case True
  then show ?thesis by (simp add: display_weather_info_def)
next
  case False
  then have "fold area_forecast_step weather_data [] \<noteq> []"
    by (rule fold_area_forecast_step_not_Nil)
  with False have "display_weather_info weather_data = fold area_forecast_step weather_data []"
    by (simp add: display_weather_info_def Let_def)
  with False show ?thesis
    by (simp only: fold_area_forecast_step [of weather_data "[]"] append_Nil if_False)
qed

section \<open>The place of one entry in the output\<close>

lemma starts_with_day_append:
  "starts_with_day (xs @ ys) = (if xs = [] then starts_with_day ys else starts_with_day xs)"
  by (cases xs) (simp_all add: starts_with_day_def)

lemma starts_with_day_concat:
  assumes "\<And>x. \<not> starts_with_day (f x)"
  shows "\<not> starts_with_day (concat (map f xs))"
  by (induction xs) (simp_all add: starts_with_day_append assms, simp add: starts_with_day_def)

lemma forecast_lines_Nil:
  "forecast_lines tds ai [] =
     (case weatherCodes ai of
        None \<Rightarrow> []
      | Some wcs \<Rightarrow>
          ForecastLine (dict_get (area_name_of ai) [])
            # map (\<lambda>k. DayLine (k + 1) (date_short (tds ! k)) (get_weather_text (wcs ! k)) (wcs ! k))
                [0..<min (length tds) (length wcs)])"
  by (simp add: forecast_lines_def day_loop_zip area_name_of_def dict_get_def
        split: option.splits)

lemma forecast_lines_no_day: "\<not> starts_with_day (forecast_lines tds ai [])"
  by (simp add: forecast_lines_Nil starts_with_day_def split: option.splits)

lemma temp_line_no_day: "\<not> starts_with_day (temp_line ai [])"
  by (simp add: temp_line_def starts_with_day_def split: option.splits)

lemma wind_line_no_day: "\<not> starts_with_day (wind_line ai [])"
  by (simp add: wind_line_def starts_with_day_def split: option.splits)

lemma wave_line_no_day: "\<not> starts_with_day (wave_line ai [])"
  by (simp add: wave_line_def starts_with_day_def split: option.splits)

lemma area_info_step_no_day: "\<not> starts_with_day (area_info_step tds ai [])"
  using forecast_lines_no_day [of tds ai] temp_line_no_day [of ai] wind_line_no_day [of ai]
    wave_line_no_day [of ai]
  by (simp add: area_info_step_parts [of tds ai "[]"] starts_with_day_append)

lemma time_series_step_no_day: "\<not> starts_with_day (time_series_step ts [])"
  by (simp add: time_series_step_def fold_area_info_step starts_with_day_concat
        area_info_step_no_day split: option.splits, simp add: starts_with_day_def)

lemma controls_after_eq:
  "controls_after tds a2 t2 d2 =
     concat (map (\<lambda>ai. area_info_step tds ai []) a2)
       @ concat (map (\<lambda>ts. time_series_step ts []) t2)
       @ Separator # concat (map (\<lambda>af. area_forecast_step af []) d2)"
  by (simp add: controls_after_def fold_area_forecast_step fold_time_series_step
        fold_area_info_step)

lemma controls_after_no_day: "\<not> starts_with_day (controls_after tds a2 t2 d2)"
proof -
  have 1: "\<not> starts_with_day (concat (map (\<lambda>ai. area_info_step tds ai []) a2))"
    by (rule starts_with_day_concat) (rule area_info_step_no_day)
  have 2: "\<not> starts_with_day (concat (map (\<lambda>ts. time_series_step ts []) t2))"
    by (rule starts_with_day_concat) (rule time_series_step_no_day)
  have 3: "\<not> starts_with_day (Separator # rest)" for rest
    by (simp add: starts_with_day_def)
  show ?thesis
    using 1 2 3 by (simp add: controls_after_eq starts_with_day_append)
qed

lemma controls_before_eq:
  "controls_before d1 af t1 tds a1 =
     concat (map (\<lambda>af. area_forecast_step af []) d1)
       @ area_header af [] @ report_time af []
       @ concat (map (\<lambda>ts. time_series_step ts []) t1)
       @ concat (map (\<lambda>ai. area_info_step tds ai []) a1)"
proof -
  have "report_time af (area_header af (fold area_forecast_step d1 []))
          = concat (map (\<lambda>af. area_forecast_step af []) d1) @ area_header af [] @ report_time af []"
    using report_time_append [of af "area_header af (fold area_forecast_step d1 [])"]
      area_header_append [of af "fold area_forecast_step d1 []"]
      fold_area_forecast_step [of d1 "[]"]
    by simp
  then show ?thesis
    by (simp add: controls_before_def fold_time_series_step fold_area_info_step)
qed

lemma display_at_entry:
  assumes "weather_data = d1 @ af # d2"
    and "timeSeries af = Some (t1 @ ts # t2)"
    and "timeDefines ts = Some tds"
    and "areas ts = Some (a1 @ ai # a2)"
  shows "display_weather_info weather_data =
           controls_before d1 af t1 tds a1 @ area_info_step tds ai [] @ controls_after tds a2 t2 d2"
proof -
  have ts: "time_series_step ts [] =
              concat (map (\<lambda>ai. area_info_step tds ai []) a1) @ area_info_step tds ai []
                @ concat (map (\<lambda>ai. area_info_step tds ai []) a2)"
    using assms(3,4) fold_area_info_step [of tds "a1 @ ai # a2" "[]"]
    by (simp add: time_series_step_def del: fold_append fold_simps)
  have tsl: "time_series_lines af [] =
               concat (map (\<lambda>ts. time_series_step ts []) t1) @ time_series_step ts []
                 @ concat (map (\<lambda>ts. time_series_step ts []) t2)"
    using assms(2) fold_time_series_step [of "t1 @ ts # t2" "[]"]
    by (simp add: time_series_lines_def del: fold_append fold_simps)
  have "display_weather_info weather_data =
          concat (map (\<lambda>af. area_forecast_step af []) d1) @ area_forecast_step af []
            @ concat (map (\<lambda>af. area_forecast_step af []) d2)"
    using assms(1) by (simp add: display_weather_info_concat)
  then show ?thesis
    by (simp add: area_forecast_step_parts [of af "[]"] tsl ts controls_before_eq controls_after_eq)
qed

section \<open>Small facts used below\<close>

lemma replicate_small: "replicate 1 x = [x]" "replicate 2 x = [x, x]" "replicate 3 x = [x, x, x]"
  by (simp_all add: numeral_2_eq_2 numeral_3_eq_3)

lemma measure_lines_kinds:
  "list_all (\<lambda>c. \<not> is_forecast c \<and> \<not> is_day c) (temp_line ai [] @ wind_line ai [] @ wave_line ai [])"
  by (simp add: temp_line_def wind_line_def wave_line_def split: option.splits)

section \<open>Which controls each step can append\<close>

lemma list_all_concat_map:
  assumes "\<And>x. list_all P (f x)"
  shows "list_all P (concat (map f xs))"
  by (induction xs) (simp_all add: assms)

lemma forecast_lines_series: "list_all is_series_line (forecast_lines tds ai [])"
  by (cases "weatherCodes ai") (simp_all add: forecast_lines_Nil list_all_iff)

lemma measure_lines_series:
  "list_all is_series_line (temp_line ai [])"
  "list_all is_series_line (wind_line ai [])"
  "list_all is_series_line (wave_line ai [])"
  by (simp_all add: temp_line_def wind_line_def wave_line_def split: option.splits)

lemma area_info_step_series: "list_all is_series_line (area_info_step tds ai [])"
  by (simp add: area_info_step_parts [of tds ai "[]"] forecast_lines_series
        measure_lines_series)

lemma time_series_step_series: "list_all is_series_line (time_series_step ts [])"
  by (simp add: time_series_step_def fold_area_info_step list_all_concat_map
        area_info_step_series split: option.splits)

lemma time_series_lines_series: "list_all is_series_line (time_series_lines af [])"
  by (simp add: time_series_lines_def fold_time_series_step list_all_concat_map
        time_series_step_series split: option.splits)

lemma filter_series_area_header:
  "list_all is_series_line cs \<Longrightarrow> filter is_area_header cs = []"
proof (induction cs)
  case Nil
  then show ?case by simp
next
  case (Cons c cs)
  then show ?case by (cases c) simp_all
qed




lemma area_forecast_step_headers:
  "filter is_area_header (area_forecast_step af []) =
     (if area af \<noteq> None then [AreaHeader (dict_get (area_name_of af) [19981, 26126])] else [])"
  using filter_series_area_header [OF time_series_lines_series [of af]]
  by (simp add: area_forecast_step_parts [of af "[]"] area_header_def report_time_def
        area_name_of_def dict_get_def split: option.splits)

section \<open>Blocks without \<^verbatim>\<open>timeDefines\<close> or \<^verbatim>\<open>areas\<close>\<close>

lemma concat_map_filter_Nil:
  assumes "\<And>x. \<not> P x \<Longrightarrow> f x = []"
  shows "concat (map f (filter P xs)) = concat (map f xs)"
  by (induction xs) (simp_all add: assms)

lemma incomplete_block_Nil: "\<not> complete_block ts \<Longrightarrow> time_series_step ts cs = cs"
  by (auto simp add: complete_block_def time_series_step_def split: option.splits)

lemma without_incomplete_blocks_step:
  "area_forecast_step (without_incomplete_blocks af) [] = area_forecast_step af []"
proof -
  have "time_series_lines (without_incomplete_blocks af) [] = time_series_lines af []"
    by (cases "timeSeries af")
      (simp_all add: time_series_lines_def without_incomplete_blocks_def fold_time_series_step
        concat_map_filter_Nil incomplete_block_Nil)
  then show ?thesis
    by (simp add: area_forecast_step_parts [of _ "[]"] area_header_def report_time_def
        without_incomplete_blocks_def)
qed

section \<open>Dates and temperatures\<close>

lemma digit_not_separator:
  "is_digit c \<Longrightarrow> (c = 84) = False"
  "is_digit c \<Longrightarrow> (c = 45) = False"
  by (simp_all add: is_digit_def)

lemma ymd_shapedE:
  assumes "ymd_shaped p"
  obtains y1 y2 y3 y4 m1 m2 dd1 dd2 where
    "p = [y1, y2, y3, y4, 45, m1, m2, 45, dd1, dd2]"
    "is_digit y1" "is_digit y2" "is_digit y3" "is_digit y4"
    "is_digit m1" "is_digit m2" "is_digit dd1" "is_digit dd2"
proof -
  from assms have "length p = 10" by (simp add: ymd_shaped_def)
  then obtain a0 a1 a2 a3 a4 a5 a6 a7 a8 a9 where
    p: "p = [a0, a1, a2, a3, a4, a5, a6, a7, a8, a9]"
    by (auto simp add: eval_nat_numeral length_Suc_conv)
  with assms show thesis
    by (intro that [of a0 a1 a2 a3 a5 a6 a8 a9]) (simp_all add: ymd_shaped_def)
qed

lemma date_short_ymd:
  assumes "ymd_shaped p"
  shows "date_short (p @ of_char CHR ''T'' # rest) = take 2 (drop 5 p) @ ascii ''/'' @ take 2 (drop 8 p)"
proof -
  from assms obtain y1 y2 y3 y4 m1 m2 dd1 dd2 where
    p: "p = [y1, y2, y3, y4, 45, m1, m2, 45, dd1, dd2]"
    and d: "is_digit y1" "is_digit y2" "is_digit y3" "is_digit y4"
      "is_digit m1" "is_digit m2" "is_digit dd1" "is_digit dd2"
    by (rule ymd_shapedE)
  have T: "of_char CHR ''T'' \<notin> set p"
    using d by (simp add: p digit_not_separator)
  have split: "str_split (of_char CHR ''-'') p = [ [y1, y2, y3, y4], [m1, m2], [dd1, dd2] ]"
    using d by (simp add: p digit_not_separator)
  have "date_short (p @ of_char CHR ''T'' # rest)
          = str_join (ascii ''/'') (take 2 (drop 1 (str_split (of_char CHR ''-'') p)))"
    using hd_str_split [OF T, of rest]
    by (simp add: date_short_def p)
  also have "\<dots> = take 2 (drop 5 p) @ ascii ''/'' @ take 2 (drop 8 p)"
    unfolding split by (simp add: p)
  finally show ?thesis .
qed

lemma no_temp_outside_temp_line:
  "list_all (\<lambda>c. \<not> is_temp c) (forecast_lines tds ai [] @ wind_line ai [] @ wave_line ai [])"
proof -
  have "list_all (\<lambda>c. \<not> is_temp c) (forecast_lines tds ai [])"
    by (cases "weatherCodes ai") (simp_all add: forecast_lines_Nil list_all_iff)
  moreover have "list_all (\<lambda>c. \<not> is_temp c) (wind_line ai [])"
    by (simp add: wind_line_def split: option.splits)
  moreover have "list_all (\<lambda>c. \<not> is_temp c) (wave_line ai [])"
    by (simp add: wave_line_def split: option.splits)
  ultimately show ?thesis by simp
qed

section \<open>The area list\<close>









section \<open>The last control\<close>



section \<open>The claims\<close>

text \<open>
  C1. For every document, every area forecast \<open>af\<close> in it, every time-series block \<open>ts\<close> of \<open>af\<close>
  whose \<^verbatim>\<open>timeDefines\<close> is present and every entry \<open>ai\<close> of its \<^verbatim>\<open>areas\<close> whose \<^verbatim>\<open>weatherCodes\<close>
  is present, the output is: the controls built before \<open>ai\<close> is reached, then one
  \<open>ForecastLine\<close>, then exactly \<open>min (length timeDefines) (length weatherCodes)\<close> day lines in
  index order, the \<open>i\<close>-th with day index \<open>i + 1\<close>, the text \<open>get_weather_text (weatherCodes ! i)\<close>
  and the code \<open>weatherCodes ! i\<close>, then the temperature, wind and wave lines of \<open>ai\<close> (none of
  them a header or a day line), then what the rest of the run appends, which does not begin
  with a day line. Entries of \<^verbatim>\<open>timeDefines\<close> beyond the shorter sequence give no line.
\<close>

theorem forecast_header_then_day_lines:
  assumes "weather_data = d1 @ af # d2"
    and "timeSeries af = Some (t1 @ ts # t2)"
    and "timeDefines ts = Some time_defines"
    and "areas ts = Some (a1 @ ai # a2)"
    and "weatherCodes ai = Some weather_codes"
  shows "display_weather_info weather_data =
           controls_before d1 af t1 time_defines a1
           @ ForecastLine (dict_get (area_name_of ai) [])
           # map (\<lambda>i. DayLine (i + 1) (date_short (time_defines ! i))
                         (get_weather_text (weather_codes ! i)) (weather_codes ! i))
               [0..<min (length time_defines) (length weather_codes)]
           @ (temp_line ai [] @ wind_line ai [] @ wave_line ai [])
           @ controls_after time_defines a2 t2 d2
         \<and> list_all (\<lambda>c. \<not> is_forecast c \<and> \<not> is_day c)
              (temp_line ai [] @ wind_line ai [] @ wave_line ai [])
         \<and> \<not> starts_with_day (controls_after time_defines a2 t2 d2)"
proof -
  have "area_info_step time_defines ai [] =
          ForecastLine (dict_get (area_name_of ai) [])
          # map (\<lambda>i. DayLine (i + 1) (date_short (time_defines ! i))
                        (get_weather_text (weather_codes ! i)) (weather_codes ! i))
              [0..<min (length time_defines) (length weather_codes)]
          @ (temp_line ai [] @ wind_line ai [] @ wave_line ai [])"
    using assms(5)
    by (simp add: area_info_step_parts [of time_defines ai "[]"] forecast_lines_Nil)
  with display_at_entry [OF assms(1-4)] measure_lines_kinds [of ai]
    controls_after_no_day [of time_defines a2 t2 d2]
  show ?thesis by simp
qed

text \<open>The sample document: three \<^verbatim>\<open>timeDefines\<close>, two codes, two day lines.\<close>

theorem forecast_header_then_day_lines_witness:
  "display_weather_info [sample_forecast] =
     [AreaHeader (ascii ''Tokyo''), Timestamp sample_time,
      ForecastLine (ascii ''Tokyo''),
      DayLine 1 (ascii ''01/01'') [26228, 12428] (ascii ''100''),
      DayLine 2 (ascii ''2024-01-02'') ([19981, 26126] @ ascii ''(999)'') (ascii ''999''),
      TempLine (ascii ''  5'' @ [176] @ ascii ''C |   - | -10.5'' @ [176] @ ascii ''C |   -''),
      Separator]"
  using forecast_header_then_day_lines [of "[sample_forecast]" "[]" sample_forecast "[]" "[]"
      sample_block "[]"
      "[sample_time, ascii ''2024-01-02'', ascii ''20240103T000000'']"
      "[]" sample_entry "[]" "[ascii ''100'', ascii ''999'']"]
  by (simp add: sample_forecast_def sample_block_def sample_entry_def sample_time_def
      controls_before_def controls_after_def area_header_def report_time_def
      temp_line_def wind_line_def wave_line_def temp_value_def truthy_def rjust_def
      area_name_of_def dict_get_def date_short_def get_weather_text_def weather_map_def
      ascii_def replicate_small upt_rec [of 0] upt_rec [of 1] upt_rec [of 2])

text \<open>
  C2. The document of one area forecast without \<^verbatim>\<open>area\<close>, \<^verbatim>\<open>reportDatetime\<close> and \<^verbatim>\<open>timeSeries\<close>:
  the output has no area header and no timestamp and is the separator alone. The "no
  displayable data" record that lines 387 to 395 are there to append does not follow it: the
  test at line 387 looks at the list of controls, and the separator appended at line 375 is
  already in it.
\<close>

theorem bare_forecast_separator_only:
  "display_weather_info [bare_forecast] = [Separator]
   \<and> display_weather_info [bare_forecast] \<noteq> [Separator, Empty]
   \<and> Empty \<notin> set (display_weather_info [bare_forecast])"
  by (simp add: display_weather_info_def bare_forecast_def area_forecast_step_def
        area_header_def report_time_def time_series_lines_def)

text \<open>
  C3, as stated: for the code \<^verbatim>\<open>"999"\<close> the result would be exactly the ASCII text
  \<^verbatim>\<open>unknown(999)\<close>. The result is the two characters U+4E0D U+660E followed by \<^verbatim>\<open>(999)\<close>.
\<close>

theorem unknown_code_not_ascii:
  "get_weather_text (ascii ''999'') = [19981, 26126] @ ascii ''(999)''
   \<and> get_weather_text (ascii ''999'') \<noteq> ascii ''unknown(999)''"
  by (simp add: get_weather_text_def dict_get_def weather_map_def ascii_def)

text \<open>
  C3, amended. For a code that is not a key of the table, \<open>get_weather_text\<close> returns the fallback
  built from the code: the two characters U+4E0D U+660E (Japanese for "unknown"), an opening
  parenthesis, the code and a closing parenthesis; for \<^verbatim>\<open>"999"\<close> this is that prefix followed by
  \<^verbatim>\<open>(999)\<close>. The function is a dictionary lookup with a default on a string and has no failing
  branch: it is total.
\<close>

theorem unknown_code_fallback:
  "(weather_code \<notin> fst ` set weather_map \<longrightarrow>
      get_weather_text weather_code = [19981, 26126] @ ascii ''('' @ weather_code @ ascii '')'')
   \<and> get_weather_text (ascii ''999'') = [19981, 26126] @ ascii ''(999)''"
proof
  show "weather_code \<notin> fst ` set weather_map \<longrightarrow>
      get_weather_text weather_code = [19981, 26126] @ ascii ''('' @ weather_code @ ascii '')''"
    by (simp add: get_weather_text_def dict_get_def map_of_eq_None_iff [symmetric])
  show "get_weather_text (ascii ''999'') = [19981, 26126] @ ascii ''(999)''"
    by (simp add: get_weather_text_def dict_get_def weather_map_def ascii_def)
qed

text \<open>The code \<^verbatim>\<open>"000"\<close> is not in the table.\<close>

theorem unknown_code_fallback_witness:
  "ascii ''000'' \<notin> fst ` set weather_map
   \<and> get_weather_text (ascii ''000'') = [19981, 26126] @ ascii ''(000)''"
  using unknown_code_fallback [of "ascii ''000''"]
  by (simp add: weather_map_def ascii_def)

text \<open>
  C4, as stated: an area header would be emitted only when \<^verbatim>\<open>area.name\<close> is present, with no
  placeholder otherwise. An area forecast whose \<^verbatim>\<open>area\<close> object has no \<^verbatim>\<open>name\<close> gets a header
  with the default name U+4E0D U+660E.
\<close>

theorem nameless_forecast_has_header:
  "area_name_of nameless_forecast = None
   \<and> display_weather_info [nameless_forecast] = [AreaHeader [19981, 26126], Separator]
   \<and> list_ex is_area_header (display_weather_info [nameless_forecast])"
  by (simp add: display_weather_info_def nameless_forecast_def area_forecast_step_def
        area_header_def report_time_def time_series_lines_def area_name_of_def dict_get_def)

text \<open>
  C4, amended. The area headers of the output are, in document order, one for each area
  forecast whose \<^verbatim>\<open>area\<close> key is present, carrying \<^verbatim>\<open>area.name\<close> when the name is present and the
  default name U+4E0D U+660E when it is not; an area forecast without the \<^verbatim>\<open>area\<close> key appends
  nothing in this step.
\<close>

theorem area_header_iff_area_key:
  "filter is_area_header (display_weather_info weather_data) =
     map (\<lambda>af. AreaHeader (dict_get (area_name_of af) [19981, 26126]))
       (filter (\<lambda>af. area af \<noteq> None) weather_data)
   \<and> area_header af controls =
       (if area af = None then controls
        else controls @ [AreaHeader (dict_get (area_name_of af) [19981, 26126])])"
proof
  have "filter is_area_header (concat (map (\<lambda>af. area_forecast_step af []) afs)) =
          map (\<lambda>af. AreaHeader (dict_get (area_name_of af) [19981, 26126]))
            (filter (\<lambda>af. area af \<noteq> None) afs)" for afs
    by (induction afs) (simp_all add: area_forecast_step_headers)
  then show "filter is_area_header (display_weather_info weather_data) =
     map (\<lambda>af. AreaHeader (dict_get (area_name_of af) [19981, 26126]))
       (filter (\<lambda>af. area af \<noteq> None) weather_data)"
    by (simp add: display_weather_info_concat)
  show "area_header af controls =
       (if area af = None then controls
        else controls @ [AreaHeader (dict_get (area_name_of af) [19981, 26126])])"
    by (simp add: area_header_def area_name_of_def dict_get_def split: option.splits)
qed

text \<open>Three area forecasts: no \<^verbatim>\<open>area\<close>, an \<^verbatim>\<open>area\<close> without name, an \<^verbatim>\<open>area\<close> with a name.\<close>

theorem area_header_iff_area_key_witness:
  "filter is_area_header (display_weather_info [bare_forecast, nameless_forecast, sample_forecast]) =
     [AreaHeader [19981, 26126], AreaHeader (ascii ''Tokyo'')]"
  using area_header_iff_area_key [of "[bare_forecast, nameless_forecast, sample_forecast]"
      bare_forecast "[]"]
  by (simp add: bare_forecast_def nameless_forecast_def sample_forecast_def area_name_of_def
        dict_get_def)

text \<open>
  C5, as stated: the short date would be \<^verbatim>\<open>MM/DD\<close> whenever the part before the time separator
  is \<^verbatim>\<open>YYYY-MM-DD\<close>-shaped, and the first ten characters of the raw string for every other
  input. Two inputs where \<open>date_short\<close> gives something else: a compact date with a \<^verbatim>\<open>T\<close> gives
  the part before the \<^verbatim>\<open>T\<close>, not ten characters; a \<^verbatim>\<open>YYYY-MM-DD\<close> date without a \<^verbatim>\<open>T\<close> is
  left as it is.
\<close>

theorem date_short_differs_from_spec:
  "date_short (ascii ''20240103T000000'') = ascii ''20240103''
   \<and> spec_date_short (ascii ''20240103T000000'') = ascii ''20240103T0''
   \<and> date_short (ascii ''2024-01-02'') = ascii ''2024-01-02''
   \<and> spec_date_short (ascii ''2024-01-02'') = ascii ''01/02''
   \<and> date_short (ascii ''20240103T000000'') \<noteq> spec_date_short (ascii ''20240103T000000'')
   \<and> date_short (ascii ''2024-01-02'') \<noteq> spec_date_short (ascii ''2024-01-02'')"
  by (simp add: date_short_def spec_date_short_def ymd_shaped_def is_digit_def ascii_def)

text \<open>
  C5, amended. When \<^verbatim>\<open>timeDefines[i]\<close> contains the time separator \<^verbatim>\<open>T\<close> and the part \<open>p\<close> before
  the first \<^verbatim>\<open>T\<close> is \<^verbatim>\<open>YYYY-MM-DD\<close>-shaped, the short date is \<^verbatim>\<open>MM/DD\<close>. When the string
  contains no \<^verbatim>\<open>T\<close>, the short date is its first ten characters (the whole string when it is
  shorter), also when the string is \<^verbatim>\<open>YYYY-MM-DD\<close>-shaped. When the string contains a \<^verbatim>\<open>T\<close>
  and \<open>p\<close> contains no dash, the short date is \<open>p\<close>; when \<open>p\<close> contains a dash, it is the second
  and third dash-separated fields of \<open>p\<close> joined with a slash.
\<close>

theorem date_short_cases:
  "(ymd_shaped p \<longrightarrow>
      date_short (p @ of_char CHR ''T'' # rest) = take 2 (drop 5 p) @ ascii ''/'' @ take 2 (drop 8 p))
   \<and> (of_char CHR ''T'' \<notin> set time_def \<longrightarrow> date_short time_def = take 10 time_def)
   \<and> (of_char CHR ''T'' \<notin> set p \<and> of_char CHR ''-'' \<notin> set p \<longrightarrow>
        date_short (p @ of_char CHR ''T'' # rest) = p)
   \<and> (of_char CHR ''T'' \<notin> set p \<and> of_char CHR ''-'' \<in> set p \<longrightarrow>
        date_short (p @ of_char CHR ''T'' # rest)
          = str_join (ascii ''/'') (take 2 (drop 1 (str_split (of_char CHR ''-'') p))))"
proof (intro conjI impI)
  assume "ymd_shaped p"
  then show "date_short (p @ of_char CHR ''T'' # rest)
               = take 2 (drop 5 p) @ ascii ''/'' @ take 2 (drop 8 p)"
    by (rule date_short_ymd)
next
  assume "of_char CHR ''T'' \<notin> set time_def"
  then show "date_short time_def = take 10 time_def"
    by (simp add: date_short_def)
next
  assume "of_char CHR ''T'' \<notin> set p \<and> of_char CHR ''-'' \<notin> set p"
  then show "date_short (p @ of_char CHR ''T'' # rest) = p"
    using hd_str_split [of "of_char CHR ''T''" p rest] by (simp add: date_short_def)
next
  assume "of_char CHR ''T'' \<notin> set p \<and> of_char CHR ''-'' \<in> set p"
  then show "date_short (p @ of_char CHR ''T'' # rest)
          = str_join (ascii ''/'') (take 2 (drop 1 (str_split (of_char CHR ''-'') p)))"
    using hd_str_split [of "of_char CHR ''T''" p rest] by (simp add: date_short_def)
qed

text \<open>One input for each of the four cases.\<close>

theorem date_short_cases_witness:
  "ymd_shaped (ascii ''2024-01-01'')
   \<and> date_short (ascii ''2024-01-01T00:00:00+09:00'') = ascii ''01/01''
   \<and> date_short (ascii ''2024-01-02'') = ascii ''2024-01-02''
   \<and> date_short (ascii ''2024-1-2 12:00'') = ascii ''2024-1-2 1''
   \<and> date_short (ascii ''20240103T000000'') = ascii ''20240103''
   \<and> date_short (ascii ''24-1T0'') = ascii ''1''"
  using date_short_cases [of "ascii ''2024-01-01''" "ascii ''00:00:00+09:00''" "ascii ''2024-01-02''"]
    date_short_cases [of "ascii ''20240103''" "ascii ''000000''" "ascii ''2024-1-2 12:00''"]
    date_short_cases [of "ascii ''24-1''" "ascii ''0''" "[]"]
  by (simp add: ymd_shaped_def is_digit_def ascii_def)



text \<open>
  C7, as stated: every entry with a non-empty \<^verbatim>\<open>temps\<close> would give one temperature line, each
  value padded on the right to three characters. The value \<^verbatim>\<open>"5"\<close> is rendered with the
  blanks on the left; and an entry with four temperatures in a block without \<^verbatim>\<open>timeDefines\<close>
  gives no temperature line.
\<close>

theorem temp_line_differs_from_spec:
  "temp_value (Some (ascii ''5'')) = ascii ''  5'' @ [176] @ ascii ''C''
   \<and> spec_temp_value (ascii ''5'') = ascii ''5  '' @ [176] @ ascii ''C''
   \<and> temp_value (Some (ascii ''5'')) \<noteq> spec_temp_value (ascii ''5'')
   \<and> areas headless_block = Some [sample_entry]
   \<and> temps sample_entry = Some [Some (ascii ''5''), None, Some (ascii ''-10.5''), Some []]
   \<and> display_weather_info [headless_forecast] = [Separator]
   \<and> \<not> list_ex is_temp (display_weather_info [headless_forecast])"
  by (simp add: temp_value_def spec_temp_value_def truthy_def rjust_def replicate_small
      headless_block_def sample_entry_def headless_forecast_def display_weather_info_def
      area_forecast_step_def area_header_def report_time_def time_series_lines_def
      time_series_step_def ascii_def)

text \<open>
  C7, amended. For an entry \<open>ai\<close> of a block that has both \<^verbatim>\<open>timeDefines\<close> and \<^verbatim>\<open>areas\<close>: when
  \<^verbatim>\<open>temps\<close> is present and not empty, exactly one \<open>TempLine\<close> is emitted for \<open>ai\<close>, after its
  forecast lines and before its wind and wave lines, and its text joins the formatted values
  with \<^verbatim>\<open>" | "\<close>; when \<^verbatim>\<open>temps\<close> is absent or empty, no \<open>TempLine\<close> is emitted for \<open>ai\<close>. A
  non-empty value is right-aligned in a field of at least three characters (blanks added on
  the left, longer values kept whole) and followed by the degree sign and \<^verbatim>\<open>C\<close>; \<^verbatim>\<open>null\<close> and the
  empty string are rendered as two blanks and a dash.
\<close>

theorem temp_line_of_entry:
  assumes "weather_data = d1 @ af # d2"
    and "timeSeries af = Some (t1 @ ts # t2)"
    and "timeDefines ts = Some time_defines"
    and "areas ts = Some (a1 @ ai # a2)"
  shows "(temps ai = Some tmps \<and> tmps \<noteq> [] \<longrightarrow>
            display_weather_info weather_data =
              controls_before d1 af t1 time_defines a1
              @ forecast_lines time_defines ai []
              @ TempLine (str_join (ascii '' | '') (map temp_value tmps))
              # (wind_line ai [] @ wave_line ai [])
              @ controls_after time_defines a2 t2 d2)
         \<and> (temps ai = None \<or> temps ai = Some [] \<longrightarrow>
            display_weather_info weather_data =
              controls_before d1 af t1 time_defines a1
              @ forecast_lines time_defines ai []
              @ (wind_line ai [] @ wave_line ai [])
              @ controls_after time_defines a2 t2 d2)
         \<and> list_all (\<lambda>c. \<not> is_temp c)
              (forecast_lines time_defines ai [] @ wind_line ai [] @ wave_line ai [])
         \<and> (temp \<noteq> [] \<longrightarrow>
              temp_value (Some temp) = replicate (3 - length temp) 32 @ temp @ [176] @ ascii ''C'')
         \<and> temp_value None = ascii ''  -''
         \<and> temp_value (Some []) = ascii ''  -''"
proof -
  note at = display_at_entry [OF assms] area_info_step_parts [of time_defines ai "[]"]
  have 1: "temps ai = Some tmps \<and> tmps \<noteq> [] \<longrightarrow>
            display_weather_info weather_data =
              controls_before d1 af t1 time_defines a1
              @ forecast_lines time_defines ai []
              @ TempLine (str_join (ascii '' | '') (map temp_value tmps))
              # (wind_line ai [] @ wave_line ai [])
              @ controls_after time_defines a2 t2 d2"
    by (simp add: at temp_line_def)
  have 2: "temps ai = None \<or> temps ai = Some [] \<longrightarrow>
            display_weather_info weather_data =
              controls_before d1 af t1 time_defines a1
              @ forecast_lines time_defines ai []
              @ (wind_line ai [] @ wave_line ai [])
              @ controls_after time_defines a2 t2 d2"
    by (auto simp add: at temp_line_def)
  have 3: "temp \<noteq> [] \<longrightarrow>
              temp_value (Some temp) = replicate (3 - length temp) 32 @ temp @ [176] @ ascii ''C''"
    by (simp add: temp_value_def truthy_def rjust_def ascii_def)
  have 4: "temp_value None = ascii ''  -''" "temp_value (Some []) = ascii ''  -''"
    by (simp_all add: temp_value_def truthy_def)
  from 1 2 3 4 no_temp_outside_temp_line [of time_defines ai] show ?thesis
    by blast
qed

text \<open>The sample entry has four temperatures; the unnamed entry has none.\<close>

theorem temp_line_of_entry_witness:
  "display_weather_info [sample_forecast] =
     [AreaHeader (ascii ''Tokyo''), Timestamp sample_time,
      ForecastLine (ascii ''Tokyo''),
      DayLine 1 (ascii ''01/01'') [26228, 12428] (ascii ''100''),
      DayLine 2 (ascii ''2024-01-02'') ([19981, 26126] @ ascii ''(999)'') (ascii ''999''),
      TempLine (ascii ''  5'' @ [176] @ ascii ''C |   - | -10.5'' @ [176] @ ascii ''C |   -''),
      Separator]
   \<and> display_weather_info [unnamed_forecast] =
     [ForecastLine [], DayLine 1 (ascii ''01/01'') [26311, 12426] (ascii ''200''), Separator]
   \<and> temp_value (Some (ascii ''12'')) = ascii '' 12'' @ [176] @ ascii ''C''"
  using temp_line_of_entry [of "[sample_forecast]" "[]" sample_forecast "[]" "[]"
      sample_block "[]"
      "[sample_time, ascii ''2024-01-02'', ascii ''20240103T000000'']"
      "[]" sample_entry "[]" "[Some (ascii ''5''), None, Some (ascii ''-10.5''), Some []]"
      "ascii ''12''"]
    temp_line_of_entry [of "[unnamed_forecast]" "[]" unnamed_forecast "[]" "[]"
      "\<lparr>timeDefines = Some [sample_time], areas = Some [unnamed_entry]\<rparr>" "[]"
      "[sample_time]" "[]" unnamed_entry "[]" "[]" "ascii ''12''"]
  by (simp add: sample_forecast_def sample_block_def sample_entry_def sample_time_def
      unnamed_forecast_def unnamed_entry_def
      controls_before_def controls_after_def area_header_def report_time_def
      forecast_lines_def wind_line_def wave_line_def temp_value_def truthy_def rjust_def
      dict_get_def date_short_def get_weather_text_def weather_map_def
      ascii_def replicate_small)




text \<open>
  C9. A time-series block without the \<^verbatim>\<open>timeDefines\<close> key or without the \<^verbatim>\<open>areas\<close> key leaves
  the list of controls as it is, whatever its entries carry; taking all such blocks out of
  a document does not change the output.
\<close>

theorem incomplete_block_emits_nothing:
  "(timeDefines ts = None \<or> areas ts = None \<longrightarrow> time_series_step ts controls = controls)
   \<and> display_weather_info (map without_incomplete_blocks weather_data)
       = display_weather_info weather_data"
proof
  show "timeDefines ts = None \<or> areas ts = None \<longrightarrow> time_series_step ts controls = controls"
    using incomplete_block_Nil [of ts controls] by (auto simp add: complete_block_def)
  show "display_weather_info (map without_incomplete_blocks weather_data)
          = display_weather_info weather_data"
    by (simp add: display_weather_info_concat comp_def without_incomplete_blocks_step)
qed

text \<open>A block without \<^verbatim>\<open>timeDefines\<close> whose entry has weather codes and temperatures.\<close>

theorem incomplete_block_emits_nothing_witness:
  "timeDefines headless_block = None
   \<and> areas headless_block = Some [sample_entry]
   \<and> weatherCodes sample_entry \<noteq> None \<and> temps sample_entry \<noteq> None
   \<and> time_series_step headless_block [AreaHeader []] = [AreaHeader []]
   \<and> display_weather_info [headless_forecast] = [Separator]"
  using incomplete_block_emits_nothing [of headless_block "[AreaHeader []]" "[headless_forecast]"]
  by (simp add: headless_block_def sample_entry_def headless_forecast_def
        without_incomplete_blocks_def complete_block_def display_weather_info_def
        area_forecast_step_def area_header_def report_time_def time_series_lines_def)

text \<open>
  C10, as stated: every entry of \<^verbatim>\<open>areas\<close> that has \<^verbatim>\<open>weatherCodes\<close> and no \<^verbatim>\<open>area.name\<close> would get
  its \<open>ForecastLine\<close>, and an area forecast without a name would get a header with the
  default name. In a block without \<^verbatim>\<open>timeDefines\<close> such an entry gets no \<open>ForecastLine\<close>, and an
  area forecast without the \<^verbatim>\<open>area\<close> key gets no header.
\<close>

theorem unnamed_entry_without_time_defines:
  "weatherCodes unnamed_entry = Some [ascii ''200'']
   \<and> area_name_of unnamed_entry = None
   \<and> timeSeries headless_unnamed_forecast
       = Some [\<lparr>timeDefines = None, areas = Some [unnamed_entry]\<rparr>]
   \<and> area_name_of headless_unnamed_forecast = None
   \<and> display_weather_info [headless_unnamed_forecast] = [Separator]
   \<and> \<not> list_ex is_forecast (display_weather_info [headless_unnamed_forecast])
   \<and> \<not> list_ex is_area_header (display_weather_info [headless_unnamed_forecast])"
  by (simp add: unnamed_entry_def headless_unnamed_forecast_def area_name_of_def
        display_weather_info_def area_forecast_step_def area_header_def report_time_def
        time_series_lines_def time_series_step_def)

text \<open>
  C10, amended. An entry of \<^verbatim>\<open>areas\<close> that has \<^verbatim>\<open>weatherCodes\<close> but no \<^verbatim>\<open>area.name\<close>, in a block
  that has \<^verbatim>\<open>timeDefines\<close>, still gets its \<open>ForecastLine\<close>, and the name on it is the empty string.
  The header of an area forecast is different: when its \<^verbatim>\<open>area\<close> object is present without a
  \<^verbatim>\<open>name\<close>, the header carries the default name U+4E0D U+660E, which is not empty.
\<close>

theorem unnamed_entry_header:
  assumes "weather_data = d1 @ af # d2"
    and "timeSeries af = Some (t1 @ ts # t2)"
    and "timeDefines ts = Some time_defines"
    and "areas ts = Some (a1 @ ai # a2)"
    and "weatherCodes ai = Some weather_codes"
    and "area_name_of ai = None"
  shows "display_weather_info weather_data =
           controls_before d1 af t1 time_defines a1
           @ ForecastLine []
           # map (\<lambda>i. DayLine (i + 1) (date_short (time_defines ! i))
                         (get_weather_text (weather_codes ! i)) (weather_codes ! i))
               [0..<min (length time_defines) (length weather_codes)]
           @ (temp_line ai [] @ wind_line ai [] @ wave_line ai [])
           @ controls_after time_defines a2 t2 d2
         \<and> (area (other :: area_forecast) \<noteq> None \<and> area_name_of other = None \<longrightarrow>
              area_header other controls = controls @ [AreaHeader [19981, 26126]])
         \<and> [19981, 26126] \<noteq> ([] :: ustring)"
proof -
  have "area_info_step time_defines ai [] =
          ForecastLine []
          # map (\<lambda>i. DayLine (i + 1) (date_short (time_defines ! i))
                        (get_weather_text (weather_codes ! i)) (weather_codes ! i))
              [0..<min (length time_defines) (length weather_codes)]
          @ (temp_line ai [] @ wind_line ai [] @ wave_line ai [])"
    using assms(5,6)
    by (simp add: area_info_step_parts [of time_defines ai "[]"] forecast_lines_Nil dict_get_def)
  with display_at_entry [OF assms(1-4)]
  have 1: "display_weather_info weather_data =
           controls_before d1 af t1 time_defines a1
           @ ForecastLine []
           # map (\<lambda>i. DayLine (i + 1) (date_short (time_defines ! i))
                         (get_weather_text (weather_codes ! i)) (weather_codes ! i))
               [0..<min (length time_defines) (length weather_codes)]
           @ (temp_line ai [] @ wind_line ai [] @ wave_line ai [])
           @ controls_after time_defines a2 t2 d2"
    by simp
  have 2: "area other \<noteq> None \<and> area_name_of other = None \<longrightarrow>
              area_header other controls = controls @ [AreaHeader [19981, 26126]]"
    by (auto simp add: area_header_def area_name_of_def dict_get_def)
  from 1 2 show ?thesis by simp
qed

text \<open>An entry without \<^verbatim>\<open>area\<close>, and an area forecast whose \<^verbatim>\<open>area\<close> has no name.\<close>

theorem unnamed_entry_header_witness:
  "display_weather_info [unnamed_forecast] =
     [ForecastLine [], DayLine 1 (ascii ''01/01'') [26311, 12426] (ascii ''200''), Separator]
   \<and> area_header nameless_forecast [] = [AreaHeader [19981, 26126]]"
  using unnamed_entry_header [where weather_data = "[unnamed_forecast]" and ?d1.0 = "[]"
      and af = unnamed_forecast and ?d2.0 = "[]" and ?t1.0 = "[]"
      and ts = "\<lparr>timeDefines = Some [sample_time], areas = Some [unnamed_entry]\<rparr>"
      and ?t2.0 = "[]" and time_defines = "[sample_time]" and ?a1.0 = "[]"
      and ai = unnamed_entry and ?a2.0 = "[]" and weather_codes = "[ascii ''200'']"
      and other = nameless_forecast and controls = "[]"]
  by (simp add: unnamed_forecast_def unnamed_entry_def nameless_forecast_def sample_time_def
      controls_before_def controls_after_def area_header_def report_time_def
      temp_line_def wind_line_def wave_line_def
      area_name_of_def dict_get_def date_short_def get_weather_text_def weather_map_def
      ascii_def upt_rec [of 0] upt_rec [of 1])

end
